theory Spec2Isabelle
  imports Complex_Main
begin

section \<open>The Kasa smart plug monitor (main.py)\<close>

text \<open>
  The monitor polls a smart plug, remembers since when the plug has been off
  (\<open>off_since\<close>) and whether an alert e-mail went out for the current outage
  (\<open>alert_sent\<close>), and sends an alert e-mail and later a recovery e-mail.

  Conventions of the embedding.
  \<^item> A \<open>datetime\<close> is a rational number of seconds since some fixed origin, a
    \<open>timedelta\<close> a rational number of seconds; \<open>total_seconds() / 60\<close> is the
    exact quotient (the floating-point rounding of Python is not modelled).
  \<^item> What Python raises is a value of type \<open>raised\<close>; a computation that may
    raise returns \<open>raised + 'a\<close>, with \<open>Inl\<close> for the raise.
  \<^item> Everything the loop reads from outside in one iteration (the plug's answer,
    the clock, the outcome of the SMTP exchange, the outcome of the two
    \<open>asyncio.sleep\<close> calls) is a field of the record \<open>poll\<close>.
  \<^item> A call of \<open>send_email_alert\<close> or \<open>send_recovery_email\<close> is recorded as an
    event, with the argument of the call (minutes).
\<close>

subsection \<open>Data\<close>

text \<open>
  What a \<open>try\<close> block can meet: an instance of \<open>Exception\<close> (caught by
  \<open>except Exception\<close>), \<open>KeyboardInterrupt\<close>, or another \<open>BaseException\<close> that
  is not an \<open>Exception\<close> (\<open>SystemExit\<close>, \<open>asyncio.CancelledError\<close>).
\<close>

datatype raised = Exception | KeyboardInterrupt | OtherBaseException

text \<open>
  A value read from the JSON configuration, as far as the comparison
  \<open>time_off >= self.config["alert_threshold"]\<close> tells values apart: a finite
  number (for Python a JSON boolean is the number 0 or 1), or a value that
  Python cannot order against a float (a string, \<open>null\<close>, a list, an object).
\<close>

datatype json_value = JNumber rat | JOther

record config =
  alert_threshold :: json_value

text \<open>The two mutable fields of \<open>KasaMonitor\<close> that the loop reads and writes.\<close>

record kasa_monitor =
  off_since :: "rat option"
  alert_sent :: bool

text \<open>
  \<open>AlertTriggered m\<close>: the call \<open>send_email_alert(m)\<close>;
  \<open>RecoveryTriggered m\<close>: the call \<open>send_recovery_email(m)\<close>; \<open>m\<close> in minutes.
\<close>

datatype event = AlertTriggered rat | RecoveryTriggered rat

record poll =
  plug :: "raised + bool"
  clock :: rat
  smtp :: "raised + unit"
  sleep :: "raised option"
  handler_sleep :: "raised option"

text \<open>How one pass through the \<open>while True\<close> body ends.\<close>

datatype outcome = Continue kasa_monitor | Break | Propagate raised

subsection \<open>Operations\<close>

text \<open>\<open>KasaMonitor.__init__\<close>: \<open>off_since = None\<close>, \<open>alert_sent = False\<close>.\<close>

definition init_monitor :: kasa_monitor where
  "init_monitor = \<lparr>off_since = None, alert_sent = False\<rparr>"

text \<open>
  \<open>get_plug_state\<close>: \<open>await self.plug.update(); return self.plug.is_on\<close> inside
  \<open>try\<close>; \<open>except Exception\<close> logs and returns \<open>None\<close>.
\<close>

definition get_plug_state :: "raised + bool \<Rightarrow> raised + bool option" where
  "get_plug_state r =
     (case r of
        Inr b \<Rightarrow> Inr (Some b)
      | Inl e \<Rightarrow> (if e = Exception then Inr None else Inl e))"

text \<open>
  \<open>_send_email\<close>: the SMTP exchange inside \<open>try\<close>, then \<open>return True\<close>;
  \<open>except Exception\<close> logs and returns \<open>False\<close>.
\<close>

definition send_email :: "raised + unit \<Rightarrow> raised + bool" where
  "send_email s =
     (case s of
        Inr u \<Rightarrow> Inr True
      | Inl e \<Rightarrow> (if e = Exception then Inr False else Inl e))"

text \<open>
  \<open>send_email_alert\<close> and \<open>send_recovery_email\<close>: build the message and
  \<open>return self._send_email(msg)\<close> inside \<open>try\<close>; \<open>except Exception\<close> returns
  \<open>False\<close>.
\<close>

definition send_email_alert :: "raised + unit \<Rightarrow> raised + bool" where
  "send_email_alert s =
     (case send_email s of
        Inr b \<Rightarrow> Inr b
      | Inl e \<Rightarrow> (if e = Exception then Inr False else Inl e))"

definition send_recovery_email :: "raised + unit \<Rightarrow> raised + bool" where
  "send_recovery_email s =
     (case send_email s of
        Inr b \<Rightarrow> Inr b
      | Inl e \<Rightarrow> (if e = Exception then Inr False else Inl e))"

text \<open>
  \<open>time_off >= self.config["alert_threshold"]\<close>: a \<open>TypeError\<close> (an
  \<open>Exception\<close>) when the configured value is not a number.
\<close>

definition threshold_reached :: "rat \<Rightarrow> json_value \<Rightarrow> raised + bool" where
  "threshold_reached time_off v =
     (case v of
        JNumber thr \<Rightarrow> Inr (thr \<le> time_off)
      | JOther \<Rightarrow> Inl Exception)"

text \<open>
  The body of the \<open>try\<close> in \<open>monitor_loop\<close>, from \<open>get_plug_state\<close> to the
  \<open>asyncio.sleep\<close> that ends it. The result is the monitor as the body left it,
  the e-mail calls it made, and what it raised, if anything.
\<close>

definition try_body :: "config \<Rightarrow> poll \<Rightarrow> kasa_monitor \<Rightarrow> kasa_monitor \<times> event list \<times> raised option" where
  "try_body cfg p m =
     (case get_plug_state (plug p) of
        Inl e \<Rightarrow> (m, [], Some e)
      | Inr None \<Rightarrow> (m, [], sleep p)
      | Inr (Some True) \<Rightarrow>
          (case off_since m of
             None \<Rightarrow> (m, [], sleep p)
           | Some t0 \<Rightarrow>
               (let total_downtime = (clock p - t0) / 60 in
                if alert_sent m then
                  (case send_recovery_email (smtp p) of
                     Inl e \<Rightarrow> (m, [RecoveryTriggered total_downtime], Some e)
                   | Inr sent \<Rightarrow>
                       (m\<lparr>off_since := None, alert_sent := False\<rparr>,
                        [RecoveryTriggered total_downtime], sleep p))
                else (m\<lparr>off_since := None, alert_sent := False\<rparr>, [], sleep p)))
      | Inr (Some False) \<Rightarrow>
          (let now = clock p in
           case off_since m of
             None \<Rightarrow> (m\<lparr>off_since := Some now\<rparr>, [], sleep p)
           | Some t0 \<Rightarrow>
               (let time_off = now - t0; minutes_off = time_off / 60 in
                case threshold_reached time_off (alert_threshold cfg) of
                  Inl e \<Rightarrow> (m, [], Some e)
                | Inr reached \<Rightarrow>
                    if reached \<and> \<not> alert_sent m then
                      (case send_email_alert (smtp p) of
                         Inl e \<Rightarrow> (m, [AlertTriggered minutes_off], Some e)
                       | Inr sent \<Rightarrow>
                           (if sent then m\<lparr>alert_sent := True\<rparr> else m,
                            [AlertTriggered minutes_off], sleep p))
                    else (m, [], sleep p))))"

text \<open>
  One pass through the \<open>while True\<close> body with its handlers:
  \<open>except KeyboardInterrupt\<close> breaks, \<open>except Exception\<close> logs and sleeps
  again (what that second sleep raises leaves the loop), anything else leaves
  the loop.
\<close>

definition iteration :: "config \<Rightarrow> poll \<Rightarrow> kasa_monitor \<Rightarrow> event list \<times> outcome" where
  "iteration cfg p m =
     (case try_body cfg p m of
        (m', evs, None) \<Rightarrow> (evs, Continue m')
      | (m', evs, Some KeyboardInterrupt) \<Rightarrow> (evs, Break)
      | (m', evs, Some Exception) \<Rightarrow>
          (case handler_sleep p of
             None \<Rightarrow> (evs, Continue m')
           | Some e \<Rightarrow> (evs, Propagate e))
      | (m', evs, Some OtherBaseException) \<Rightarrow> (evs, Propagate OtherBaseException))"

text \<open>
  \<open>monitor_loop\<close> run against the polls of a finite stretch of time: the e-mail
  calls made, in order, and either the monitor with which the next pass would
  start (\<open>Continue\<close>) or how the loop was left.
\<close>

fun monitor_loop :: "config \<Rightarrow> poll list \<Rightarrow> kasa_monitor \<Rightarrow> event list \<times> outcome" where
  "monitor_loop cfg [] m = ([], Continue m)"
| "monitor_loop cfg (p # ps) m =
     (case iteration cfg p m of
        (evs, Continue m') \<Rightarrow>
          (case monitor_loop cfg ps m' of (evs', out) \<Rightarrow> (evs @ evs', out))
      | (evs, out) \<Rightarrow> (evs, out))"

subsection \<open>Samples\<close>

text \<open>
  A sample is what \<open>get_plug_state\<close> returns (\<open>Some True\<close>: on, \<open>Some False\<close>:
  off, \<open>None\<close>: the query failed), the time of the poll, and whether the SMTP
  exchange of that poll would succeed. \<open>sampled\<close> is the poll in which exactly
  that happens: a failure is an \<open>Exception\<close>, and both sleeps return.
\<close>

definition sampled :: "bool option \<times> rat \<times> bool \<Rightarrow> poll" where
  "sampled x =
     (case x of (s, t, ok) \<Rightarrow>
        \<lparr>plug = (case s of Some b \<Rightarrow> Inr b | None \<Rightarrow> Inl Exception),
         clock = t,
         smtp = (if ok then Inr () else Inl Exception),
         sleep = None,
         handler_sleep = None\<rparr>)"

definition feed :: "config \<Rightarrow> (bool option \<times> rat \<times> bool) list \<Rightarrow> kasa_monitor \<Rightarrow> event list \<times> outcome" where
  "feed cfg xs m = monitor_loop cfg (map sampled xs) m"

fun is_alert :: "event \<Rightarrow> bool" where
  "is_alert (AlertTriggered d) = True"
| "is_alert (RecoveryTriggered d) = False"

definition alerts :: "event list \<Rightarrow> nat" where
  "alerts evs = length (filter is_alert evs)"

text \<open>No raise other than an \<open>Exception\<close>, and the handler's sleep returns.\<close>

definition only_exceptions :: "poll \<Rightarrow> bool" where
  "only_exceptions p \<longleftrightarrow>
     plug p \<notin> {Inl KeyboardInterrupt, Inl OtherBaseException} \<and>
     smtp p \<notin> {Inl KeyboardInterrupt, Inl OtherBaseException} \<and>
     sleep p \<notin> {Some KeyboardInterrupt, Some OtherBaseException} \<and>
     handler_sleep p = None"

text \<open>\<open>DEFAULT_CONFIG\<close>: \<open>"alert_threshold": 300\<close>.\<close>

definition DEFAULT_CONFIG :: config where
  "DEFAULT_CONFIG = \<lparr>alert_threshold = JNumber 300\<rparr>"

text \<open>An alert has been recorded only for an outage that is still open.\<close>

definition episode_inv :: "kasa_monitor \<Rightarrow> bool" where
  "episode_inv m \<longleftrightarrow> (alert_sent m \<longrightarrow> off_since m \<noteq> None)"

text \<open>
  An off sample whose elapsed time, measured from \<open>t0\<close>, is at least \<open>thr\<close>.
\<close>

definition over_threshold :: "rat \<Rightarrow> rat \<Rightarrow> bool option \<times> rat \<times> bool \<Rightarrow> bool" where
  "over_threshold thr t0 x \<longleftrightarrow> fst x = Some False \<and> thr \<le> fst (snd x) - t0"

section \<open>Single iterations\<close>

lemma get_plug_state_simps:
  "get_plug_state (Inr b) = Inr (Some b)"
  "get_plug_state (Inl Exception) = Inr None"
  "get_plug_state (Inl KeyboardInterrupt) = Inl KeyboardInterrupt"
  "get_plug_state (Inl OtherBaseException) = Inl OtherBaseException"
  by (simp_all add: get_plug_state_def)

lemma send_email_alert_simps:
  "send_email_alert (Inr u) = Inr True"
  "send_email_alert (Inl Exception) = Inr False"
  "send_email_alert (Inl KeyboardInterrupt) = Inl KeyboardInterrupt"
  "send_email_alert (Inl OtherBaseException) = Inl OtherBaseException"
  by (simp_all add: send_email_alert_def send_email_def)

lemma send_recovery_email_simps:
  "send_recovery_email (Inr u) = Inr True"
  "send_recovery_email (Inl Exception) = Inr False"
  "send_recovery_email (Inl KeyboardInterrupt) = Inl KeyboardInterrupt"
  "send_recovery_email (Inl OtherBaseException) = Inl OtherBaseException"
  by (simp_all add: send_recovery_email_def send_email_def)

lemma sampled_simps:
  "plug (sampled (s, t, ok)) = (case s of Some b \<Rightarrow> Inr b | None \<Rightarrow> Inl Exception)"
  "clock (sampled (s, t, ok)) = t"
  "smtp (sampled (s, t, ok)) = (if ok then Inr () else Inl Exception)"
  "sleep (sampled (s, t, ok)) = None"
  "handler_sleep (sampled (s, t, ok)) = None"
  by (simp_all add: sampled_def)

text \<open>What one iteration does with each kind of sample.\<close>

lemma iteration_unknown:
  "iteration cfg (sampled (None, t, ok)) m = ([], Continue m)"
  by (simp add: iteration_def try_body_def sampled_simps get_plug_state_simps)

lemma iteration_on_idle:
  "off_since m = None \<Longrightarrow> iteration cfg (sampled (Some True, t, ok)) m = ([], Continue m)"
  by (simp add: iteration_def try_body_def sampled_simps get_plug_state_simps)

lemma iteration_on_episode:
  "off_since m = Some t0 \<Longrightarrow>
   iteration cfg (sampled (Some True, t, ok)) m =
     (if alert_sent m then [RecoveryTriggered ((t - t0) / 60)] else [],
      Continue (m\<lparr>off_since := None, alert_sent := False\<rparr>))"
  by (simp add: iteration_def try_body_def sampled_simps get_plug_state_simps
      send_recovery_email_simps)

lemma iteration_off_idle:
  "off_since m = None \<Longrightarrow>
   iteration cfg (sampled (Some False, t, ok)) m = ([], Continue (m\<lparr>off_since := Some t\<rparr>))"
  by (simp add: iteration_def try_body_def sampled_simps get_plug_state_simps)

lemma iteration_off_episode:
  "off_since m = Some t0 \<Longrightarrow> alert_threshold cfg = JNumber thr \<Longrightarrow>
   iteration cfg (sampled (Some False, t, ok)) m =
     (if thr \<le> t - t0 \<and> \<not> alert_sent m
      then ([AlertTriggered ((t - t0) / 60)], Continue (if ok then m\<lparr>alert_sent := True\<rparr> else m))
      else ([], Continue m))"
  by (simp add: iteration_def try_body_def sampled_simps get_plug_state_simps
      send_email_alert_simps threshold_reached_def Let_def)

lemma iteration_off_episode_type_error:
  "off_since m = Some t0 \<Longrightarrow> alert_threshold cfg = JOther \<Longrightarrow>
   iteration cfg (sampled (Some False, t, ok)) m = ([], Continue m)"
  by (simp add: iteration_def try_body_def sampled_simps get_plug_state_simps
      threshold_reached_def Let_def)

lemma feed_Nil: "feed cfg [] m = ([], Continue m)"
  by (simp add: feed_def)

lemma feed_Cons:
  "feed cfg (x # xs) m =
     (case iteration cfg (sampled x) m of
        (evs, Continue m') \<Rightarrow> (case feed cfg xs m' of (evs', out) \<Rightarrow> (evs @ evs', out))
      | (evs, out) \<Rightarrow> (evs, out))"
  unfolding feed_def by simp

lemma try_body_events_le_1: "length (fst (snd (try_body cfg p m))) \<le> 1"
  by (auto simp: try_body_def Let_def split: sum.split option.split bool.split)

lemma iteration_events: "fst (iteration cfg p m) = fst (snd (try_body cfg p m))"
  by (simp add: iteration_def split: prod.split option.split raised.split)

section \<open>Runs\<close>

lemma iteration_continue_state:
  "iteration cfg p m = (evs, Continue m') \<Longrightarrow> m' = fst (try_body cfg p m)"
  by (auto simp: iteration_def split: prod.splits option.splits raised.splits)

lemma try_body_episode_inv: "episode_inv m \<Longrightarrow> episode_inv (fst (try_body cfg p m))"
  by (auto simp: episode_inv_def try_body_def Let_def split: sum.split option.split bool.split)

lemma monitor_loop_episode_inv:
  "episode_inv m \<Longrightarrow> monitor_loop cfg ps m = (evs, Continue m') \<Longrightarrow> episode_inv m'"
proof (induction ps arbitrary: m evs)
  case Nil
  then show ?case by simp
next
  case (Cons p ps)
  obtain evs1 out1 where it: "iteration cfg p m = (evs1, out1)"
    by (cases "iteration cfg p m")
  show ?case
  proof (cases out1)
    case (Continue m1)
    with it have "m1 = fst (try_body cfg p m)"
      by (simp add: iteration_continue_state)
    with Cons.prems(1) have inv1: "episode_inv m1"
      by (simp add: try_body_episode_inv)
    obtain evs2 out2 where rest: "monitor_loop cfg ps m1 = (evs2, out2)"
      by (cases "monitor_loop cfg ps m1")
    with Cons.prems(2) it Continue have "out2 = Continue m'"
      by simp
    with rest inv1 show ?thesis
      using Cons.IH by blast
  next
    case Break
    with it Cons.prems(2) show ?thesis by simp
  next
    case (Propagate e)
    with it Cons.prems(2) show ?thesis by simp
  qed
qed

lemma try_body_sets_alert:
  "\<not> alert_sent m \<Longrightarrow> alert_sent (fst (try_body cfg p m)) \<Longrightarrow>
   off_since m \<noteq> None \<and> off_since (fst (try_body cfg p m)) = off_since m"
  by (auto simp: try_body_def Let_def split: sum.splits option.splits bool.splits if_splits)

lemma try_body_clears_episode:
  "off_since m \<noteq> None \<Longrightarrow> off_since (fst (try_body cfg p m)) = None \<Longrightarrow>
   \<not> alert_sent (fst (try_body cfg p m))"
  by (auto simp: try_body_def Let_def split: sum.splits option.splits bool.splits if_splits)

lemma alerts_simps:
  "alerts [] = 0"
  "alerts (AlertTriggered d # evs) = Suc (alerts evs)"
  "alerts (RecoveryTriggered d # evs) = alerts evs"
  "alerts (evs @ evs') = alerts evs + alerts evs'"
  by (simp_all add: alerts_def)

lemma feed_all_on_idle:
  "off_since m = None \<Longrightarrow> \<forall>x\<in>set ons. fst x = Some True \<Longrightarrow> feed cfg ons m = ([], Continue m)"
proof (induction ons)
  case Nil
  show ?case by (simp add: feed_Nil)
next
  case (Cons x ons)
  obtain t ok where x: "x = (Some True, t, ok)"
    using Cons.prems(2) by (cases x) auto
  from Cons have "feed cfg ons m = ([], Continue m)" by simp
  with Cons.prems(1) x show ?case
    by (simp add: feed_Cons iteration_on_idle)
qed

lemma feed_open_episode:
  assumes "alert_threshold cfg = JNumber thr"
    and "off_since m = Some t0"
    and "\<forall>x\<in>set xs. fst x \<noteq> Some True"
    and "\<forall>x\<in>set xs. over_threshold thr t0 x \<longrightarrow> snd (snd x)"
  shows "\<exists>evs. feed cfg xs m =
           (evs, Continue (m\<lparr>alert_sent := alert_sent m \<or> (\<exists>x\<in>set xs. over_threshold thr t0 x)\<rparr>)) \<and>
         alerts evs = (if \<not> alert_sent m \<and> (\<exists>x\<in>set xs. over_threshold thr t0 x) then 1 else 0)"
  using assms(2-)
proof (induction xs arbitrary: m)
  case Nil
  show ?case by (simp add: feed_Nil alerts_simps)
next
  case (Cons x xs)
  obtain s t ok where x: "x = (s, t, ok)" by (cases x)
  from Cons.prems(2) x have s: "s = None \<or> s = Some False" by (cases s) auto
  let ?q = "\<exists>y\<in>set xs. over_threshold thr t0 y"
  show ?case
  proof (cases "over_threshold thr t0 x \<and> \<not> alert_sent m")
    case True
    with x Cons.prems(3) have ok: "ok" and sF: "s = Some False" and le: "thr \<le> t - t0"
      by (auto simp: over_threshold_def)
    let ?m1 = "m\<lparr>alert_sent := True\<rparr>"
    have step: "iteration cfg (sampled x) m = ([AlertTriggered ((t - t0) / 60)], Continue ?m1)"
      using True ok sF le x Cons.prems(1) assms(1) by (simp add: iteration_off_episode)
    have "\<exists>evs. feed cfg xs ?m1 =
             (evs, Continue (?m1\<lparr>alert_sent := alert_sent ?m1 \<or> ?q\<rparr>)) \<and>
           alerts evs = (if \<not> alert_sent ?m1 \<and> ?q then 1 else 0)"
      using Cons.prems by (intro Cons.IH) auto
    then obtain evs where rest: "feed cfg xs ?m1 = (evs, Continue ?m1)" and n: "alerts evs = 0"
      by auto
    from step rest n True show ?thesis
      by (auto simp: feed_Cons alerts_simps)
  next
    case False
    have step: "iteration cfg (sampled x) m = ([], Continue m)"
    proof (cases s)
      case None
      with x show ?thesis by (simp add: iteration_unknown)
    next
      case (Some b)
      with s have "s = Some False" by simp
      with False x Cons.prems(1) assms(1) show ?thesis
        by (auto simp: iteration_off_episode over_threshold_def)
    qed
    have "\<exists>evs. feed cfg xs m =
             (evs, Continue (m\<lparr>alert_sent := alert_sent m \<or> ?q\<rparr>)) \<and>
           alerts evs = (if \<not> alert_sent m \<and> ?q then 1 else 0)"
      using Cons.prems by (intro Cons.IH) auto
    then obtain evs where rest: "feed cfg xs m = (evs, Continue (m\<lparr>alert_sent := alert_sent m \<or> ?q\<rparr>))"
      and n: "alerts evs = (if \<not> alert_sent m \<and> ?q then 1 else 0)"
      by auto
    have eq: "(alert_sent m \<or> (\<exists>y\<in>set (x # xs). over_threshold thr t0 y)) = (alert_sent m \<or> ?q)"
      using False by auto
    have eq2: "(\<not> alert_sent m \<and> (\<exists>y\<in>set (x # xs). over_threshold thr t0 y)) = (\<not> alert_sent m \<and> ?q)"
      using False by auto
    show ?thesis
      unfolding eq eq2 using step rest n by (simp add: feed_Cons)
  qed
qed

lemma feed_append:
  "feed cfg xs m = (evs, Continue m') \<Longrightarrow>
   feed cfg (xs @ ys) m = (evs @ fst (feed cfg ys m'), snd (feed cfg ys m'))"
proof (induction xs arbitrary: m evs)
  case Nil
  then show ?case by (simp add: feed_Nil)
next
  case (Cons x xs)
  obtain evs1 out1 where it: "iteration cfg (sampled x) m = (evs1, out1)"
    by (cases "iteration cfg (sampled x) m")
  show ?case
  proof (cases out1)
    case (Continue m1)
    obtain evs2 out2 where rest: "feed cfg xs m1 = (evs2, out2)"
      by (cases "feed cfg xs m1")
    with Cons.prems it Continue have "out2 = Continue m'" and evs: "evs = evs1 @ evs2"
      by (simp_all add: feed_Cons)
    with rest have "feed cfg (xs @ ys) m1 = (evs2 @ fst (feed cfg ys m'), snd (feed cfg ys m'))"
      using Cons.IH by blast
    with it Continue evs show ?thesis
      by (simp add: feed_Cons)
  next
    case Break
    with it Cons.prems show ?thesis by (simp add: feed_Cons)
  next
    case (Propagate e)
    with it Cons.prems show ?thesis by (simp add: feed_Cons)
  qed
qed

lemma try_body_raises_exception_only:
  assumes "only_exceptions p" and "try_body cfg p m = (m1, evs, Some e)"
  shows "e = Exception"
proof (cases e)
  case Exception
  then show ?thesis .
next
  case KeyboardInterrupt
  with assms show ?thesis
    by (auto simp: try_body_def only_exceptions_def Let_def get_plug_state_def
        send_email_alert_def send_recovery_email_def send_email_def threshold_reached_def
        split: sum.splits option.splits bool.splits if_splits json_value.splits)
next
  case OtherBaseException
  with assms show ?thesis
    by (auto simp: try_body_def only_exceptions_def Let_def get_plug_state_def
        send_email_alert_def send_recovery_email_def send_email_def threshold_reached_def
        split: sum.splits option.splits bool.splits if_splits json_value.splits)
qed

lemma iteration_only_exceptions:
  assumes "only_exceptions p"
  shows "snd (iteration cfg p m) = Continue (fst (try_body cfg p m))"
proof -
  obtain m1 evs r where tb: "try_body cfg p m = (m1, evs, r)"
    by (cases "try_body cfg p m")
  show ?thesis
  proof (cases r)
    case None
    with tb show ?thesis by (simp add: iteration_def)
  next
    case (Some e)
    with tb assms have "e = Exception"
      by (simp add: try_body_raises_exception_only)
    moreover from assms have "handler_sleep p = None"
      by (simp add: only_exceptions_def)
    ultimately show ?thesis
      using tb Some by (simp add: iteration_def)
  qed
qed

lemma monitor_loop_only_exceptions:
  "\<forall>p\<in>set ps. only_exceptions p \<Longrightarrow> \<exists>m'. snd (monitor_loop cfg ps m) = Continue m'"
proof (induction ps arbitrary: m)
  case Nil
  show ?case by simp
next
  case (Cons p ps)
  then have "snd (iteration cfg p m) = Continue (fst (try_body cfg p m))"
    by (simp add: iteration_only_exceptions)
  then obtain evs where it: "iteration cfg p m = (evs, Continue (fst (try_body cfg p m)))"
    by (cases "iteration cfg p m") simp
  from Cons obtain m' where "snd (monitor_loop cfg ps (fst (try_body cfg p m))) = Continue m'"
    by fastforce
  with it show ?case
    by (auto split: prod.splits)
qed

lemma try_body_recovery_iff:
  "RecoveryTriggered d \<in> set (fst (snd (try_body cfg p m))) \<longleftrightarrow>
   plug p = Inr True \<and> alert_sent m \<and> (\<exists>t0. off_since m = Some t0 \<and> d = (clock p - t0) / 60)"
  by (auto simp: try_body_def get_plug_state_def Let_def
      split: sum.splits option.splits bool.splits if_splits)

lemma try_body_dispatch_frame:
  "off_since (fst (try_body cfg (sampled (s, t, True)) m)) =
     off_since (fst (try_body cfg (sampled (s, t, False)) m)) \<and>
   fst (snd (try_body cfg (sampled (s, t, True)) m)) =
     fst (snd (try_body cfg (sampled (s, t, False)) m))"
  by (auto simp: try_body_def sampled_simps get_plug_state_simps send_email_alert_simps
      send_recovery_email_simps Let_def split: sum.splits option.splits bool.splits)

section \<open>The claims\<close>

text \<open>
  C1, as stated, fails. With the default threshold of 300 seconds, the plug off
  at t = 0, 300 and 360 and the SMTP exchange failing at 300 and at 360, the
  loop calls \<open>send_email_alert\<close> at 300 and again at 360: two AlertTriggered
  events in one outage episode, none of them delivered, although off samples of
  the episode have an elapsed time of at least the threshold.
\<close>

theorem C1_repeated_alert_counterexample:
  "fst (feed DEFAULT_CONFIG
     [(Some False, 0, True), (Some False, 300, False), (Some False, 360, False)] init_monitor) =
     [AlertTriggered 5, AlertTriggered 6] \<and>
   snd (feed DEFAULT_CONFIG
     [(Some False, 0, True), (Some False, 300, False), (Some False, 360, False)] init_monitor) =
     Continue \<lparr>off_since = Some 0, alert_sent = False\<rparr> \<and>
   \<not> alerts (fst (feed DEFAULT_CONFIG
     [(Some False, 0, True), (Some False, 300, False), (Some False, 360, False)] init_monitor)) \<le> 1"
proof -
  have "off_since (init_monitor\<lparr>off_since := Some 0\<rparr>) = Some 0"
    by simp
  then show ?thesis
    by (simp add: feed_Cons feed_Nil iteration_off_idle alerts_simps
        iteration_off_episode [where ?t0.0 = 0 and thr = 300] DEFAULT_CONFIG_def init_monitor_def)
qed

text \<open>
  C1, amended. Take any sequence of samples \<open>pre\<close> after which no episode is
  open, and let an episode follow it: an off sample at \<open>t0\<close>, then samples
  \<open>xs\<close> none of which is on, then possibly the on sample that closes it. If the
  threshold is a positive number and the alert e-mail is delivered at every off
  sample of the episode whose elapsed time (its time minus \<open>t0\<close>) is at least
  the threshold, then the episode emits at most one AlertTriggered event, and
  exactly one if and only if some off sample of the episode has an elapsed time
  of at least the threshold.
\<close>

theorem C1_one_alert_per_episode:
  assumes "feed cfg pre init_monitor = (evs0, Continue m)"
    and "off_since m = None"
    and "alert_threshold cfg = JNumber thr"
    and "0 < thr"
    and "\<forall>x\<in>set xs. fst x \<noteq> Some True"
    and "\<forall>x\<in>set xs. over_threshold thr t0 x \<longrightarrow> snd (snd x)"
    and "cl = [] \<or> cl = [(Some True, tc, okc)]"
  shows "\<exists>evs out.
    feed cfg (pre @ (Some False, t0, ok0) # xs @ cl) init_monitor = (evs0 @ evs, out) \<and>
    feed cfg ((Some False, t0, ok0) # xs @ cl) m = (evs, out) \<and>
    alerts evs \<le> 1 \<and>
    (alerts evs = 1 \<longleftrightarrow> (\<exists>x\<in>set ((Some False, t0, ok0) # xs @ cl). over_threshold thr t0 x))"
proof -
  let ?m1 = "m\<lparr>off_since := Some t0\<rparr>"
  let ?q = "\<exists>x\<in>set xs. over_threshold thr t0 x"
  have "episode_inv m"
    using assms(1) monitor_loop_episode_inv [of init_monitor cfg "map sampled pre" evs0 m]
    by (simp add: feed_def episode_inv_def init_monitor_def)
  with assms(2) have quiet: "\<not> alert_sent m"
    by (simp add: episode_inv_def)
  have first: "iteration cfg (sampled (Some False, t0, ok0)) m = ([], Continue ?m1)"
    using assms(2) by (rule iteration_off_idle)
  have "\<exists>evs. feed cfg xs ?m1 =
           (evs, Continue (?m1\<lparr>alert_sent := alert_sent ?m1 \<or> ?q\<rparr>)) \<and>
         alerts evs = (if \<not> alert_sent ?m1 \<and> ?q then 1 else 0)"
    using assms(3) _ assms(5,6) by (rule feed_open_episode) simp
  then obtain evs1 where mid: "feed cfg xs ?m1 = (evs1, Continue (?m1\<lparr>alert_sent := ?q\<rparr>))"
    and n1: "alerts evs1 = (if ?q then 1 else 0)"
    using quiet by auto
  have "\<exists>evs2 out. feed cfg cl (?m1\<lparr>alert_sent := ?q\<rparr>) = (evs2, out) \<and> alerts evs2 = 0"
    using assms(7) by (auto simp: feed_Nil feed_Cons iteration_on_episode alerts_simps)
  then obtain evs2 out where last: "feed cfg cl (?m1\<lparr>alert_sent := ?q\<rparr>) = (evs2, out)"
    and n2: "alerts evs2 = 0"
    by blast
  from mid last have "feed cfg (xs @ cl) ?m1 = (evs1 @ evs2, out)"
    by (simp add: feed_append)
  with first have ep: "feed cfg ((Some False, t0, ok0) # xs @ cl) m = (evs1 @ evs2, out)"
    by (simp add: feed_Cons)
  with assms(1) have whole:
    "feed cfg (pre @ (Some False, t0, ok0) # xs @ cl) init_monitor = (evs0 @ evs1 @ evs2, out)"
    by (simp add: feed_append)
  have "\<not> over_threshold thr t0 (Some False, t0, ok0)"
    using assms(4) by (simp add: over_threshold_def)
  moreover have "\<forall>x\<in>set cl. \<not> over_threshold thr t0 x"
    using assms(7) by (auto simp: over_threshold_def)
  ultimately have q: "(\<exists>x\<in>set ((Some False, t0, ok0) # xs @ cl). over_threshold thr t0 x) = ?q"
    by auto
  have "alerts (evs1 @ evs2) \<le> 1 \<and> (alerts (evs1 @ evs2) = 1 \<longleftrightarrow> ?q)"
    using n1 n2 by (simp add: alerts_simps)
  with ep whole q show ?thesis
    by blast
qed

text \<open>
  C1, an instance: on at 0; off at 10 (the episode starts), query failure at 70,
  off at 310 (elapsed 300, alert delivered), off at 370, on at 400.
\<close>

theorem C1_one_alert_per_episode_witness:
  "feed DEFAULT_CONFIG
     ([(Some True, 0, True)] @ (Some False, 10, False) #
      [(None, 70, False), (Some False, 310, True), (Some False, 370, True)] @ [(Some True, 400, True)])
     init_monitor =
     ([AlertTriggered 5, RecoveryTriggered (13 / 2)], Continue \<lparr>off_since = None, alert_sent = False\<rparr>) \<and>
   alerts [AlertTriggered 5, RecoveryTriggered (13 / 2)] = 1 \<and>
   over_threshold 300 10 (Some False, 310, True)"
proof -
  have h1: "feed DEFAULT_CONFIG [(Some True, 0, True)] init_monitor = ([], Continue init_monitor)"
    by (simp add: feed_Cons feed_Nil iteration_on_idle init_monitor_def)
  have h2: "off_since init_monitor = None"
    by (simp add: init_monitor_def)
  have h3: "alert_threshold DEFAULT_CONFIG = JNumber 300"
    by (simp add: DEFAULT_CONFIG_def)
  have h4: "(0::rat) < 300"
    by simp
  have h5: "\<forall>x\<in>set [(None, 70::rat, False), (Some False, 310, True), (Some False, 370, True)].
      fst x \<noteq> Some True"
    by simp
  have h6: "\<forall>x\<in>set [(None, 70::rat, False), (Some False, 310, True), (Some False, 370, True)].
      over_threshold 300 10 x \<longrightarrow> snd (snd x)"
    by (simp add: over_threshold_def)
  have h7: "[(Some True, 400::rat, True)] = [] \<or> [(Some True, 400::rat, True)] = [(Some True, 400, True)]"
    by simp
  from C1_one_alert_per_episode [OF h1 h2 h3 h4 h5 h6 h7, of False]
  have "\<exists>evs out.
      feed DEFAULT_CONFIG
        ([(Some True, 0, True)] @ (Some False, 10, False) #
         [(None, 70, False), (Some False, 310, True), (Some False, 370, True)] @ [(Some True, 400, True)])
        init_monitor = ([] @ evs, out) \<and> alerts evs = 1"
    by (auto simp: over_threshold_def)
  moreover have "off_since (init_monitor\<lparr>off_since := Some 10\<rparr>) = Some 10"
    by simp
  ultimately show ?thesis
    by (simp add: feed_Cons feed_Nil iteration_on_idle iteration_unknown iteration_off_idle alerts_simps
        iteration_off_episode [where ?t0.0 = 10 and thr = 300]
        iteration_on_episode [where ?t0.0 = 10] over_threshold_def DEFAULT_CONFIG_def init_monitor_def)
qed

text \<open>
  C2. A pass of the loop calls \<open>send_recovery_email\<close> (RecoveryTriggered) if and
  only if the plug is on, an episode is open and \<open>alert_sent\<close> is true; the
  downtime it passes is the time of that poll minus \<open>off_since\<close>, in minutes.
  An on sample closes an open episode whether or not the e-mail is delivered,
  and emits nothing when \<open>alert_sent\<close> is false. Off at 0, off at 300 with the
  alert delivered, on at 360: one recovery, with a downtime of 360 / 60 = 6
  minutes, that is 360 seconds.
\<close>

theorem C2_recovery_iff_alerted_episode_closed:
  "(RecoveryTriggered d \<in> set (fst (iteration cfg p m)) \<longleftrightarrow>
      plug p = Inr True \<and> alert_sent m \<and> (\<exists>t0. off_since m = Some t0 \<and> d = (clock p - t0) / 60)) \<and>
   (off_since m = Some t0 \<longrightarrow>
      iteration cfg (sampled (Some True, t, ok)) m =
        (if alert_sent m then [RecoveryTriggered ((t - t0) / 60)] else [],
         Continue (m\<lparr>off_since := None, alert_sent := False\<rparr>))) \<and>
   feed DEFAULT_CONFIG [(Some False, 0, ok0), (Some False, 300, True), (Some True, 360, ok2)]
     init_monitor =
     ([AlertTriggered (300 / 60), RecoveryTriggered (360 / 60)],
      Continue \<lparr>off_since = None, alert_sent = False\<rparr>)"
proof -
  have "off_since (init_monitor\<lparr>off_since := Some 0\<rparr>) = Some 0"
    by simp
  then show ?thesis
    by (simp add: iteration_events try_body_recovery_iff iteration_on_episode
        feed_Cons feed_Nil iteration_off_idle
        iteration_off_episode [where ?t0.0 = 0 and thr = 300]
        iteration_on_episode [where ?t0.0 = 0] DEFAULT_CONFIG_def init_monitor_def)
qed

text \<open>
  C2, instances: an episode without alert closed at 120 emits nothing; an
  alerted episode closed at 360 emits the recovery with 6 minutes.
\<close>

theorem C2_recovery_iff_alerted_episode_closed_witness:
  "off_since \<lparr>off_since = Some 0, alert_sent = False\<rparr> = Some 0 \<and>
   iteration DEFAULT_CONFIG (sampled (Some True, 120, True)) \<lparr>off_since = Some 0, alert_sent = False\<rparr> =
     ([], Continue \<lparr>off_since = None, alert_sent = False\<rparr>) \<and>
   RecoveryTriggered 6 \<in> set (fst (iteration DEFAULT_CONFIG (sampled (Some True, 360, False))
     \<lparr>off_since = Some 0, alert_sent = True\<rparr>))"
  using C2_recovery_iff_alerted_episode_closed
    [of 6 DEFAULT_CONFIG "sampled (Some True, 360, False)" "\<lparr>off_since = Some 0, alert_sent = True\<rparr>"]
    C2_recovery_iff_alerted_episode_closed
    [of _ DEFAULT_CONFIG _ "\<lparr>off_since = Some 0, alert_sent = False\<rparr>" 0 120 True]
  by (simp add: sampled_simps)

text \<open>
  C3, as stated, fails. From the same monitor (off since 0, no alert sent) and
  the same off sample at t = 300, the pass ends with \<open>alert_sent = True\<close> when
  the alert e-mail is delivered and with \<open>alert_sent = False\<close> when it is not.
  After the failed delivery at 300 the alert is emitted again at 360; had the
  delivery at 300 succeeded, the sample at 360 would have emitted nothing.
\<close>

theorem C3_dispatch_failure_counterexample:
  "snd (iteration DEFAULT_CONFIG (sampled (Some False, 300, True))
          \<lparr>off_since = Some 0, alert_sent = False\<rparr>) \<noteq>
   snd (iteration DEFAULT_CONFIG (sampled (Some False, 300, False))
          \<lparr>off_since = Some 0, alert_sent = False\<rparr>) \<and>
   snd (iteration DEFAULT_CONFIG (sampled (Some False, 300, True))
          \<lparr>off_since = Some 0, alert_sent = False\<rparr>) =
     Continue \<lparr>off_since = Some 0, alert_sent = True\<rparr> \<and>
   snd (iteration DEFAULT_CONFIG (sampled (Some False, 300, False))
          \<lparr>off_since = Some 0, alert_sent = False\<rparr>) =
     Continue \<lparr>off_since = Some 0, alert_sent = False\<rparr> \<and>
   feed DEFAULT_CONFIG [(Some False, 0, True), (Some False, 300, False), (Some False, 360, True)]
     init_monitor =
     ([AlertTriggered 5, AlertTriggered 6], Continue \<lparr>off_since = Some 0, alert_sent = True\<rparr>) \<and>
   feed DEFAULT_CONFIG [(Some False, 0, True), (Some False, 300, True), (Some False, 360, True)]
     init_monitor =
     ([AlertTriggered 5], Continue \<lparr>off_since = Some 0, alert_sent = True\<rparr>)"
proof -
  have "off_since (init_monitor\<lparr>off_since := Some 0\<rparr>) = Some 0"
    by simp
  then show ?thesis
    by (simp add: feed_Cons feed_Nil iteration_off_idle
        iteration_off_episode [where ?t0.0 = 0 and thr = 300] DEFAULT_CONFIG_def init_monitor_def)
qed

text \<open>
  C3, amended. A failed delivery of the recovery e-mail changes nothing: an on
  sample ends in the same monitor and with the same events whether the e-mail
  is delivered or not. For every sample, \<open>off_since\<close> after the pass and the
  events of the pass do not depend on the delivery. \<open>alert_sent\<close> does: when an
  off sample of an open episode without alert reaches the threshold, the pass
  emits AlertTriggered and sets \<open>alert_sent\<close> exactly when the e-mail was
  delivered; after a failed delivery the monitor is unchanged and the next off
  sample that reaches the threshold emits AlertTriggered again.
\<close>

theorem C3_dispatch_outcome:
  assumes "alert_threshold cfg = JNumber thr"
    and "off_since m = Some t0"
    and "\<not> alert_sent m"
    and "thr \<le> t - t0"
    and "thr \<le> t' - t0"
  shows "iteration cfg (sampled (Some True, u, True)) m0 =
      iteration cfg (sampled (Some True, u, False)) m0 \<and>
    off_since (fst (try_body cfg (sampled (s, u, True)) m0)) =
      off_since (fst (try_body cfg (sampled (s, u, False)) m0)) \<and>
    fst (iteration cfg (sampled (s, u, True)) m0) = fst (iteration cfg (sampled (s, u, False)) m0) \<and>
    iteration cfg (sampled (Some False, t, ok)) m =
      ([AlertTriggered ((t - t0) / 60)], Continue (m\<lparr>alert_sent := ok\<rparr>)) \<and>
    feed cfg [(Some False, t, False), (Some False, t', ok)] m =
      ([AlertTriggered ((t - t0) / 60), AlertTriggered ((t' - t0) / 60)],
       Continue (m\<lparr>alert_sent := ok\<rparr>))"
proof -
  have rec: "iteration cfg (sampled (Some True, u, True)) m0 =
      iteration cfg (sampled (Some True, u, False)) m0"
    by (cases "off_since m0") (simp_all add: iteration_on_idle iteration_on_episode)
  have m: "m\<lparr>alert_sent := False\<rparr> = m"
    using assms(3) by simp
  have one: "iteration cfg (sampled (Some False, v, b)) m =
      ([AlertTriggered ((v - t0) / 60)], Continue (m\<lparr>alert_sent := b\<rparr>))" if "thr \<le> v - t0" for v b
    using that assms(1-3) m by (simp add: iteration_off_episode)
  have two: "feed cfg [(Some False, t, False), (Some False, t', ok)] m =
      ([AlertTriggered ((t - t0) / 60), AlertTriggered ((t' - t0) / 60)],
       Continue (m\<lparr>alert_sent := ok\<rparr>))"
    using assms(4,5) by (simp add: feed_Cons feed_Nil one m)
  from rec one [OF assms(4)] two show ?thesis
    using try_body_dispatch_frame [of cfg s u m0] by (simp add: iteration_events)
qed

text \<open>
  C3, an instance: an alerted episode closed at 360 with and without delivery;
  an alert at 300 delivered; an alert at 300 not delivered and repeated at 360.
\<close>

theorem C3_dispatch_outcome_witness:
  "iteration DEFAULT_CONFIG (sampled (Some True, 360, True)) \<lparr>off_since = Some 0, alert_sent = True\<rparr> =
     ([RecoveryTriggered 6], Continue \<lparr>off_since = None, alert_sent = False\<rparr>) \<and>
   iteration DEFAULT_CONFIG (sampled (Some True, 360, False)) \<lparr>off_since = Some 0, alert_sent = True\<rparr> =
     ([RecoveryTriggered 6], Continue \<lparr>off_since = None, alert_sent = False\<rparr>) \<and>
   iteration DEFAULT_CONFIG (sampled (Some False, 300, True)) \<lparr>off_since = Some 0, alert_sent = False\<rparr> =
     ([AlertTriggered 5], Continue \<lparr>off_since = Some 0, alert_sent = True\<rparr>) \<and>
   feed DEFAULT_CONFIG [(Some False, 300, False), (Some False, 360, True)]
     \<lparr>off_since = Some 0, alert_sent = False\<rparr> =
     ([AlertTriggered 5, AlertTriggered 6], Continue \<lparr>off_since = Some 0, alert_sent = True\<rparr>)"
proof -
  have h1: "alert_threshold DEFAULT_CONFIG = JNumber 300"
    by (simp add: DEFAULT_CONFIG_def)
  have h2: "off_since \<lparr>off_since = Some 0, alert_sent = False\<rparr> = Some 0"
    by simp
  have h3: "\<not> alert_sent \<lparr>off_since = Some (0::rat), alert_sent = False\<rparr>"
    by simp
  have h4: "(300::rat) \<le> 300 - 0" and h5: "(300::rat) \<le> 360 - 0"
    by simp_all
  from C3_dispatch_outcome [OF h1 h2 h3 h4 h5, of 360 "\<lparr>off_since = Some 0, alert_sent = True\<rparr>" "Some True" True]
  show ?thesis
    by (simp add: iteration_on_episode [where ?t0.0 = 0])
qed

text \<open>
  C4. When the query fails with an \<open>Exception\<close>, \<open>get_plug_state\<close> returns
  \<open>None\<close> and the body of the loop leaves the monitor as it was and makes no
  e-mail call, whether an episode is open or not. Off at 0, query failures at
  60, 120, 180 and 240, off at 300, with the default threshold of 300 seconds:
  nothing up to 240, and at 300 one alert with 300 / 60 minutes, the elapsed
  time counted from 0.
\<close>

theorem C4_unknown_is_noop:
  "try_body cfg (p\<lparr>plug := Inl Exception\<rparr>) m = (m, [], sleep p) \<and>
   iteration cfg (sampled (None, t, ok)) m = ([], Continue m) \<and>
   feed DEFAULT_CONFIG
     [(Some False, 0, ok0), (None, 60, ok1), (None, 120, ok2), (None, 180, ok3),
      (None, 240, ok4)] init_monitor =
     ([], Continue \<lparr>off_since = Some 0, alert_sent = False\<rparr>) \<and>
   feed DEFAULT_CONFIG
     [(Some False, 0, ok0), (None, 60, ok1), (None, 120, ok2), (None, 180, ok3),
      (None, 240, ok4), (Some False, 300, ok5)] init_monitor =
     ([AlertTriggered (300 / 60)], Continue \<lparr>off_since = Some 0, alert_sent = ok5\<rparr>)"
proof -
  have "try_body cfg (p\<lparr>plug := Inl Exception\<rparr>) m = (m, [], sleep p)"
    by (simp add: try_body_def get_plug_state_simps)
  moreover have "off_since (init_monitor\<lparr>off_since := Some 0\<rparr>) = Some 0"
    by simp
  ultimately show ?thesis
    by (simp add: feed_Cons feed_Nil iteration_unknown iteration_off_idle
        iteration_off_episode [where ?t0.0 = 0 and thr = 300] DEFAULT_CONFIG_def init_monitor_def)
qed

text \<open>
  C5. With the default threshold of 300 seconds and the plug off at
  t = 0, 60, 120, 180, 240, 300: no event up to 240, and the pass at 300 (elapsed
  time equal to the threshold) emits AlertTriggered, so the whole sequence
  emits it exactly once, whatever the outcome of the SMTP exchanges.
\<close>

theorem C5_scenario_A:
  "feed DEFAULT_CONFIG
     [(Some False, 0, ok0), (Some False, 60, ok1), (Some False, 120, ok2),
      (Some False, 180, ok3), (Some False, 240, ok4)] init_monitor =
     ([], Continue \<lparr>off_since = Some 0, alert_sent = False\<rparr>) \<and>
   iteration DEFAULT_CONFIG (sampled (Some False, 300, ok5))
     \<lparr>off_since = Some 0, alert_sent = False\<rparr> =
     ([AlertTriggered (300 / 60)], Continue \<lparr>off_since = Some 0, alert_sent = ok5\<rparr>) \<and>
   feed DEFAULT_CONFIG
     [(Some False, 0, ok0), (Some False, 60, ok1), (Some False, 120, ok2),
      (Some False, 180, ok3), (Some False, 240, ok4), (Some False, 300, ok5)] init_monitor =
     ([AlertTriggered (300 / 60)], Continue \<lparr>off_since = Some 0, alert_sent = ok5\<rparr>) \<and>
   alerts (fst (feed DEFAULT_CONFIG
     [(Some False, 0, ok0), (Some False, 60, ok1), (Some False, 120, ok2),
      (Some False, 180, ok3), (Some False, 240, ok4), (Some False, 300, ok5)] init_monitor)) = 1"
  by (simp add: feed_Cons feed_Nil iteration_off_idle alerts_simps
      iteration_off_episode [where ?t0.0 = 0 and thr = 300] DEFAULT_CONFIG_def init_monitor_def)

text \<open>
  C6. \<open>get_plug_state\<close> turns an \<open>Exception\<close> of the query into \<open>None\<close>, and a
  pass with such a query leaves the monitor unchanged and continues. Whenever
  the query, the SMTP exchange, the comparison with the configured threshold
  and the sleep that ends the body raise nothing but instances of
  \<open>Exception\<close>, and the sleep of the handler returns, the pass ends in
  \<open>Continue\<close>; so does every run of such passes.
\<close>

theorem C6_failure_containment:
  "get_plug_state (Inl Exception) = Inr None \<and>
   (only_exceptions p \<longrightarrow> iteration cfg (p\<lparr>plug := Inl Exception\<rparr>) m = ([], Continue m)) \<and>
   (only_exceptions p \<longrightarrow> (\<exists>m'. snd (iteration cfg p m) = Continue m')) \<and>
   ((\<forall>q\<in>set ps. only_exceptions q) \<longrightarrow> (\<exists>m'. snd (monitor_loop cfg ps m) = Continue m'))"
proof -
  have "iteration cfg (p\<lparr>plug := Inl Exception\<rparr>) m = ([], Continue m)" if "only_exceptions p"
    using that
    by (auto simp: iteration_def try_body_def get_plug_state_simps only_exceptions_def
        split: option.splits raised.splits)
  then show ?thesis
    by (simp add: get_plug_state_simps iteration_only_exceptions monitor_loop_only_exceptions)
qed

text \<open>
  C6, an instance, with a threshold that is not a number: a failed query; an
  off sample in an open episode, where the comparison raises \<open>TypeError\<close>;
  a run of two passes, the second with a failed query and a failing sleep.
\<close>

theorem C6_failure_containment_witness:
  "only_exceptions \<lparr>plug = Inr False, clock = 300, smtp = Inl Exception, sleep = None, handler_sleep = None\<rparr> \<and>
   only_exceptions \<lparr>plug = Inl Exception, clock = 360, smtp = Inr (), sleep = Some Exception, handler_sleep = None\<rparr> \<and>
   iteration \<lparr>alert_threshold = JOther\<rparr>
     \<lparr>plug = Inl Exception, clock = 300, smtp = Inl Exception, sleep = None, handler_sleep = None\<rparr>
     \<lparr>off_since = Some 0, alert_sent = False\<rparr> = ([], Continue \<lparr>off_since = Some 0, alert_sent = False\<rparr>) \<and>
   snd (iteration \<lparr>alert_threshold = JOther\<rparr>
     \<lparr>plug = Inr False, clock = 300, smtp = Inl Exception, sleep = None, handler_sleep = None\<rparr>
     \<lparr>off_since = Some 0, alert_sent = False\<rparr>) = Continue \<lparr>off_since = Some 0, alert_sent = False\<rparr> \<and>
   snd (monitor_loop \<lparr>alert_threshold = JOther\<rparr>
     [\<lparr>plug = Inr False, clock = 300, smtp = Inl Exception, sleep = None, handler_sleep = None\<rparr>,
      \<lparr>plug = Inl Exception, clock = 360, smtp = Inr (), sleep = Some Exception, handler_sleep = None\<rparr>]
     \<lparr>off_since = Some 0, alert_sent = False\<rparr>) = Continue \<lparr>off_since = Some 0, alert_sent = False\<rparr>"
  using C6_failure_containment
    [of "\<lparr>plug = Inr False, clock = 300, smtp = Inl Exception, sleep = None, handler_sleep = None\<rparr>"
        "\<lparr>alert_threshold = JOther\<rparr>" "\<lparr>off_since = Some 0, alert_sent = False\<rparr>"
        "[\<lparr>plug = Inr False, clock = 300, smtp = Inl Exception, sleep = None, handler_sleep = None\<rparr>,
          \<lparr>plug = Inl Exception, clock = 360, smtp = Inr (), sleep = Some Exception, handler_sleep = None\<rparr>]"]
  by (simp add: only_exceptions_def iteration_def try_body_def get_plug_state_def
      send_email_alert_def send_email_def threshold_reached_def Let_def)

text \<open>
  C7. Let \<open>ons\<close> be on samples only. From a monitor without open episode, and so
  from the initial one, they leave the monitor unchanged and emit nothing.
  After any on sample no episode is open, so on samples that follow it change
  nothing and emit nothing: the events of the whole run are those of its first
  on sample.
\<close>

theorem C7_on_idempotent:
  assumes "\<forall>x\<in>set ons. fst x = Some True"
  shows "(off_since m = None \<longrightarrow> feed cfg ons m = ([], Continue m)) \<and>
    feed cfg ons init_monitor = ([], Continue init_monitor) \<and>
    (\<exists>evs m'. iteration cfg (sampled (Some True, t, ok)) m = (evs, Continue m') \<and>
       off_since m' = None \<and>
       feed cfg ons m' = ([], Continue m') \<and>
       feed cfg ((Some True, t, ok) # ons) m = (evs, Continue m'))"
proof -
  have idle: "feed cfg ons m0 = ([], Continue m0)" if "off_since m0 = None" for m0
    using that assms by (rule feed_all_on_idle)
  have init: "feed cfg ons init_monitor = ([], Continue init_monitor)"
    by (rule idle) (simp add: init_monitor_def)
  have "\<exists>evs m'. iteration cfg (sampled (Some True, t, ok)) m = (evs, Continue m') \<and>
       off_since m' = None"
    by (cases "off_since m") (simp_all add: iteration_on_idle iteration_on_episode)
  then obtain evs m' where it: "iteration cfg (sampled (Some True, t, ok)) m = (evs, Continue m')"
    and none: "off_since m' = None"
    by blast
  from none have rest: "feed cfg ons m' = ([], Continue m')"
    by (rule idle)
  with it have "feed cfg ((Some True, t, ok) # ons) m = (evs, Continue m')"
    by (simp add: feed_Cons)
  with it none rest idle init show ?thesis
    by blast
qed

text \<open>
  C7, an instance: an alerted episode closed at 360, then on at 420 and 480:
  one RecoveryTriggered, from the sample at 360.
\<close>

theorem C7_on_idempotent_witness:
  "feed DEFAULT_CONFIG [(Some True, 420, True), (Some True, 480, False)] init_monitor =
     ([], Continue init_monitor) \<and>
   feed DEFAULT_CONFIG [(Some True, 360, True), (Some True, 420, True), (Some True, 480, False)]
     \<lparr>off_since = Some 0, alert_sent = True\<rparr> =
     ([RecoveryTriggered (360 / 60)], Continue \<lparr>off_since = None, alert_sent = False\<rparr>)"
proof -
  have h: "\<forall>x\<in>set [(Some True, 420::rat, True), (Some True, 480, False)]. fst x = Some True"
    by simp
  from C7_on_idempotent [OF h, of "\<lparr>off_since = Some 0, alert_sent = True\<rparr>" DEFAULT_CONFIG 360 True]
  show ?thesis
    by (simp add: iteration_on_episode [where ?t0.0 = 0])
qed

text \<open>
  C8. One pass of the loop makes at most one e-mail call, whatever the monitor
  holds and whatever the poll brings, so no pass emits both an AlertTriggered and
  a RecoveryTriggered event.
\<close>

theorem C8_at_most_one_event:
  "length (fst (iteration cfg p m)) \<le> 1 \<and>
   \<not> (AlertTriggered a \<in> set (fst (iteration cfg p m)) \<and>
      RecoveryTriggered r \<in> set (fst (iteration cfg p m)))"
proof -
  have le: "length (fst (iteration cfg p m)) \<le> 1"
    using try_body_events_le_1 [of cfg p m] by (simp add: iteration_events)
  have "\<not> (AlertTriggered a \<in> set evs \<and> RecoveryTriggered r \<in> set evs)"
    if "length evs \<le> 1" for evs
  proof (cases evs)
    case Nil
    then show ?thesis by simp
  next
    case (Cons e es)
    with that have "es = []" by simp
    with Cons show ?thesis by auto
  qed
  with le show ?thesis by blast
qed

text \<open>
  C9. \<open>alert_sent\<close> implies \<open>off_since \<noteq> None\<close>: this holds in the initial
  monitor, the body of the loop keeps it (however the pass ends), and so it
  holds after every pass and every run from the initial monitor. The body sets
  \<open>alert_sent\<close> only when an episode is open, and leaves \<open>off_since\<close> as it
  is when it does; when it closes an episode, \<open>alert_sent\<close> is false afterwards.
\<close>

theorem C9_alert_sent_implies_episode:
  "episode_inv init_monitor \<and>
   (episode_inv m \<longrightarrow> episode_inv (fst (try_body cfg p m))) \<and>
   (\<forall>evs m'. episode_inv m \<and> iteration cfg p m = (evs, Continue m') \<longrightarrow> episode_inv m') \<and>
   (\<forall>evs m'. monitor_loop cfg ps init_monitor = (evs, Continue m') \<longrightarrow> episode_inv m') \<and>
   (\<not> alert_sent m \<and> alert_sent (fst (try_body cfg p m)) \<longrightarrow>
      off_since m \<noteq> None \<and> off_since (fst (try_body cfg p m)) = off_since m) \<and>
   (off_since m \<noteq> None \<and> off_since (fst (try_body cfg p m)) = None \<longrightarrow>
      \<not> alert_sent (fst (try_body cfg p m)))"
proof -
  have init: "episode_inv init_monitor"
    by (simp add: episode_inv_def init_monitor_def)
  have step: "episode_inv m' " if "episode_inv m" and "iteration cfg p m = (evs, Continue m')" for evs m'
    using that iteration_continue_state [of cfg p m evs m'] by (simp add: try_body_episode_inv)
  have run: "episode_inv m'" if "monitor_loop cfg ps init_monitor = (evs, Continue m')" for evs m'
    using init that by (rule monitor_loop_episode_inv)
  from init step run show ?thesis
    using try_body_episode_inv [of m cfg p] try_body_sets_alert [of m cfg p]
      try_body_clears_episode [of m cfg p]
    by blast
qed

text \<open>
  C9, an instance: off since 0, no alert yet, off sample at 300 with the
  e-mail delivered.
\<close>

theorem C9_alert_sent_implies_episode_witness:
  "episode_inv \<lparr>off_since = Some 0, alert_sent = False\<rparr> \<and>
   iteration DEFAULT_CONFIG (sampled (Some False, 300, True)) \<lparr>off_since = Some 0, alert_sent = False\<rparr> =
     ([AlertTriggered 5], Continue \<lparr>off_since = Some 0, alert_sent = True\<rparr>) \<and>
   episode_inv \<lparr>off_since = Some 0, alert_sent = True\<rparr> \<and>
   monitor_loop DEFAULT_CONFIG [sampled (Some False, 0, True), sampled (Some False, 300, True)] init_monitor =
     ([AlertTriggered 5], Continue \<lparr>off_since = Some 0, alert_sent = True\<rparr>) \<and>
   \<not> alert_sent \<lparr>off_since = Some 0, alert_sent = False\<rparr> \<and>
   alert_sent (fst (try_body DEFAULT_CONFIG (sampled (Some False, 300, True)) \<lparr>off_since = Some 0, alert_sent = False\<rparr>)) \<and>
   off_since (fst (try_body DEFAULT_CONFIG (sampled (Some False, 300, True)) \<lparr>off_since = Some 0, alert_sent = False\<rparr>)) = Some 0"
proof -
  have inv: "episode_inv \<lparr>off_since = Some 0, alert_sent = False\<rparr>"
    by (simp add: episode_inv_def)
  have it: "iteration DEFAULT_CONFIG (sampled (Some False, 300, True)) \<lparr>off_since = Some 0, alert_sent = False\<rparr> =
     ([AlertTriggered 5], Continue \<lparr>off_since = Some 0, alert_sent = True\<rparr>)"
    by (simp add: iteration_off_episode [where ?t0.0 = 0 and thr = 300] DEFAULT_CONFIG_def)
  have run: "monitor_loop DEFAULT_CONFIG [sampled (Some False, 0, True), sampled (Some False, 300, True)] init_monitor =
     ([AlertTriggered 5], Continue \<lparr>off_since = Some 0, alert_sent = True\<rparr>)"
    using it by (simp add: iteration_off_idle init_monitor_def)
  have tb: "fst (try_body DEFAULT_CONFIG (sampled (Some False, 300, True)) \<lparr>off_since = Some 0, alert_sent = False\<rparr>) =
     \<lparr>off_since = Some 0, alert_sent = True\<rparr>"
    using iteration_continue_state [OF it] by simp
  from C9_alert_sent_implies_episode [of "\<lparr>off_since = Some 0, alert_sent = False\<rparr>" DEFAULT_CONFIG
      "sampled (Some False, 300, True)" "[sampled (Some False, 0, True), sampled (Some False, 300, True)]"]
    inv it run tb
  show ?thesis
    by simp
qed

text \<open>
  C10. An off sample met while no episode is open records the time in
  \<open>off_since\<close> and makes no e-mail call, for every configuration: the threshold is
  not read on that pass.
\<close>

theorem C10_no_alert_on_first_off:
  assumes "off_since m = None"
  shows "try_body cfg (p\<lparr>plug := Inr False\<rparr>) m = (m\<lparr>off_since := Some (clock p)\<rparr>, [], sleep p) \<and>
    iteration cfg (sampled (Some False, t, ok)) m = ([], Continue (m\<lparr>off_since := Some t\<rparr>))"
  using assms by (simp add: try_body_def get_plug_state_simps iteration_off_idle)

text \<open>
  C10, an instance with threshold 0: the first off sample emits nothing, the
  second, at the same time, emits the alert.
\<close>

theorem C10_no_alert_on_first_off_witness:
  "off_since init_monitor = None \<and>
   try_body \<lparr>alert_threshold = JNumber 0\<rparr>
     (\<lparr>plug = Inr True, clock = 7, smtp = Inr (), sleep = None, handler_sleep = None\<rparr>\<lparr>plug := Inr False\<rparr>)
     init_monitor = (\<lparr>off_since = Some 7, alert_sent = False\<rparr>, [], None) \<and>
   iteration \<lparr>alert_threshold = JNumber 0\<rparr> (sampled (Some False, 7, True)) init_monitor =
     ([], Continue \<lparr>off_since = Some 7, alert_sent = False\<rparr>) \<and>
   feed \<lparr>alert_threshold = JNumber 0\<rparr> [(Some False, 7, True), (Some False, 7, True)] init_monitor =
     ([AlertTriggered 0], Continue \<lparr>off_since = Some 7, alert_sent = True\<rparr>)"
proof -
  have h: "off_since init_monitor = None"
    by (simp add: init_monitor_def)
  from C10_no_alert_on_first_off [OF h, of "\<lparr>alert_threshold = JNumber 0\<rparr>"
      "\<lparr>plug = Inr True, clock = 7, smtp = Inr (), sleep = None, handler_sleep = None\<rparr>" 7 True]
  show ?thesis
    using h by (simp add: init_monitor_def feed_Cons feed_Nil iteration_off_idle
        iteration_off_episode [where ?t0.0 = 7 and thr = 0])
qed

end
